theory Spec2Isabelle
  imports Complex_Main "HOL-Library.Multiset"
begin

section \<open>Data model\<close>

text \<open>
  Finite floats are modelled by the real numbers they denote; a score is a finite
  single-precision value, and the rounding of the threshold to single precision in the
  comparison of \<open>similarity_search\<close> is modelled by \<open>to_f32\<close> below. The arithmetic of the
  embedding model and of the index library is not modelled: both are parameters. Python
  ints are \<^typ>\<open>int\<close>, and \<open>str\<close> is \<^typ>\<open>string\<close> restricted to ASCII text, so that \<open>len\<close> is
  \<^const>\<open>length\<close>. Exceptions are values of \<open>py_error\<close>.
\<close>

datatype py_error =
    IndexError
  | ValueError
  | AssertionError
  | FileNotFoundError
  | UnpicklingError
  | RuntimeError
  | OSError

text \<open>\<open>transform_rules.py\<close>, class \<open>DocumentMetadata\<close>.\<close>

record DocumentMetadata =
  source_system :: string
  classification :: string
  weight :: real
  file_path :: string
  pii_masked :: bool

text \<open>
  One entry of the \<open>source_config\<close> dictionary. Each key of the entry may be missing, which
  is what \<open>dict.get(key, default)\<close> tests; an entry whose keys are all missing is the \<open>{}\<close>
  that \<open>self.source_config.get(source_system, {})\<close> falls back to.
\<close>

record source_entry =
  cfg_classification :: "string option"
  cfg_weight :: "real option"
  cfg_pii_mask :: "bool option"

definition empty_entry :: source_entry where
  "empty_entry = \<lparr>cfg_classification = None, cfg_weight = None, cfg_pii_mask = None\<rparr>"

definition dict_get :: "('k \<rightharpoonup> 'v) \<Rightarrow> 'k \<Rightarrow> 'v \<Rightarrow> 'v" where
  "dict_get d key dflt = (case d key of None \<Rightarrow> dflt | Some v \<Rightarrow> v)"

definition opt_get :: "'v option \<Rightarrow> 'v \<Rightarrow> 'v" where
  "opt_get field dflt = (case field of None \<Rightarrow> dflt | Some v \<Rightarrow> v)"

section \<open>The regular expressions of \<open>TransformRules.__init__\<close>\<close>

text \<open>
  The four patterns only use word boundaries, greedy bounded repetitions of a character
  class, and one group of literal alternatives. The matcher below is a backtracking
  matcher for exactly these constructs, with the priorities of Python's \<open>re\<close>: a greedy
  repetition tries the longest run first and gives characters back one at a time, and
  alternatives are tried from left to right.
\<close>

type_synonym charset = "(char \<times> char) list"

datatype re_item =
    Rep charset nat "nat option"
  | WordB
  | AltLit "string list"

type_synonym compiled = "re_item list \<times> bool"

definition in_range :: "char \<Rightarrow> char \<times> char \<Rightarrow> bool" where
  "in_range c r = ((of_char (fst r) :: nat) \<le> of_char c \<and> (of_char c :: nat) \<le> of_char (snd r))"

definition ascii_lower :: "char \<Rightarrow> char" where
  "ascii_lower c = (if in_range c (CHR ''A'', CHR ''Z'') then char_of (of_char c + (32::nat)) else c)"

definition ascii_upper :: "char \<Rightarrow> char" where
  "ascii_upper c = (if in_range c (CHR ''a'', CHR ''z'') then char_of (of_char c - (32::nat)) else c)"

definition in_charset :: "bool \<Rightarrow> charset \<Rightarrow> char \<Rightarrow> bool" where
  "in_charset ic cs c =
     (list_ex (in_range c) cs \<or>
      (ic \<and> (list_ex (in_range (ascii_lower c)) cs \<or> list_ex (in_range (ascii_upper c)) cs)))"

definition word_chars :: charset where
  "word_chars = [(CHR ''A'', CHR ''Z''), (CHR ''a'', CHR ''z''), (CHR ''0'', CHR ''9''),
                 (CHR ''_'', CHR ''_'')]"

definition digit_chars :: charset where
  "digit_chars = [(CHR ''0'', CHR ''9'')]"

definition space_chars :: charset where
  "space_chars = [(CHR 0x09, CHR 0x0D), (CHR 0x1C, CHR 0x20)]"

definition is_word :: "char \<Rightarrow> bool" where
  "is_word c = list_ex (in_range c) word_chars"

text \<open>
  \<open>\b\<close>: the character before the position and the character at the position differ in
  being word characters; outside the string counts as a non-word character.
\<close>

definition at_boundary :: "char option \<Rightarrow> string \<Rightarrow> bool" where
  "at_boundary prev s =
     ((case prev of None \<Rightarrow> False | Some c \<Rightarrow> is_word c) \<noteq>
      (case s of [] \<Rightarrow> False | c # _ \<Rightarrow> is_word c))"

definition advance :: "char option \<Rightarrow> string \<Rightarrow> nat \<Rightarrow> char option" where
  "advance prev s j = (if j = 0 \<or> length s < j then prev else Some (s ! (j - 1)))"

definition lit_matches :: "bool \<Rightarrow> string \<Rightarrow> string \<Rightarrow> bool" where
  "lit_matches ic a s =
     (length a \<le> length s \<and>
      (if ic then map ascii_lower (take (length a) s) = map ascii_lower a
       else take (length a) s = a))"

fun try_down :: "(nat \<Rightarrow> nat option) \<Rightarrow> nat \<Rightarrow> nat \<Rightarrow> nat option" where
  "try_down f lo 0 = (if lo = 0 then f 0 else None)"
| "try_down f lo (Suc n) =
     (if Suc n < lo then None
      else (case f (Suc n) of Some e \<Rightarrow> Some e | None \<Rightarrow> try_down f lo n))"

fun first_alt :: "(string \<Rightarrow> nat option) \<Rightarrow> string list \<Rightarrow> nat option" where
  "first_alt f [] = None"
| "first_alt f (a # as) = (case f a of Some e \<Rightarrow> Some e | None \<Rightarrow> first_alt f as)"

text \<open>
  \<open>match_items ic items prev s\<close>: the pattern \<open>items\<close> matched at the start of \<open>s\<close>, where
  \<open>prev\<close> is the character before \<open>s\<close>; the result is the number of characters consumed.
\<close>

fun match_items :: "bool \<Rightarrow> re_item list \<Rightarrow> char option \<Rightarrow> string \<Rightarrow> nat option" where
  "match_items ic [] prev s = Some 0"
| "match_items ic (WordB # rest) prev s =
     (if at_boundary prev s then match_items ic rest prev s else None)"
| "match_items ic (Rep cs lo hi # rest) prev s =
     (let n = length (takeWhile (in_charset ic cs) s);
          m = (case hi of None \<Rightarrow> n | Some h \<Rightarrow> min h n)
      in try_down
           (\<lambda>j. map_option (\<lambda>e. j + e) (match_items ic rest (advance prev s j) (drop j s)))
           lo m)"
| "match_items ic (AltLit alts # rest) prev s =
     first_alt
       (\<lambda>a. if lit_matches ic a s
            then map_option (\<lambda>e. length a + e)
                   (match_items ic rest (advance prev s (length a)) (drop (length a) s))
            else None)
       alts"

definition match_at :: "compiled \<Rightarrow> char option \<Rightarrow> string \<Rightarrow> nat option" where
  "match_at p prev s = match_items (snd p) (fst p) prev s"

lemma try_down_le: "try_down f lo m = Some e \<Longrightarrow> \<exists>j\<le>m. f j = Some e"
proof (induction m)
  case 0
  then show ?case by (auto split: if_splits)
next
  case (Suc m)
  show ?case
  proof (cases "f (Suc m)")
    case None
    with Suc.prems have "try_down f lo m = Some e" by (simp split: if_splits)
    from Suc.IH[OF this] obtain j where "j \<le> m" "f j = Some e" by blast
    then show ?thesis by (intro exI[of _ j]) simp
  next
    case (Some e')
    with Suc.prems have "f (Suc m) = Some e" by (simp split: if_splits)
    then show ?thesis by (intro exI[of _ "Suc m"]) simp
  qed
qed

lemma first_alt_mem: "first_alt f as = Some e \<Longrightarrow> \<exists>a\<in>set as. f a = Some e"
  by (induction as) (auto split: option.splits)

lemma match_items_le: "match_items ic items prev s = Some e \<Longrightarrow> e \<le> length s"
proof (induction ic items prev s arbitrary: e rule: match_items.induct)
  case (1 ic prev s)
  then show ?case by simp
next
  case (2 ic rest prev s)
  then show ?case by (simp split: if_splits)
next
  case (3 ic cs lo hi rest prev s)
  let ?n = "length (takeWhile (in_charset ic cs) s)"
  let ?m = "case hi of None \<Rightarrow> ?n | Some h \<Rightarrow> min h ?n"
  from "3.prems" obtain j where j: "j \<le> ?m"
    and f: "map_option (\<lambda>e. j + e) (match_items ic rest (advance prev s j) (drop j s)) = Some e"
    by (auto simp: Let_def dest!: try_down_le)
  from f obtain e' where e': "match_items ic rest (advance prev s j) (drop j s) = Some e'"
    and e: "e = j + e'" by auto
  have "?m \<le> ?n" by (simp split: option.splits)
  moreover have "?n \<le> length s" by (rule length_takeWhile_le)
  ultimately have js: "j \<le> length s" using j by linarith
  from "3.IH"[OF refl refl e'] have "e' \<le> length (drop j s)" .
  with js e show ?case by simp
next
  case (4 ic alts rest prev s)
  from "4.prems" obtain a where a: "a \<in> set alts" and lm: "lit_matches ic a s"
    and f: "map_option (\<lambda>e. length a + e)
              (match_items ic rest (advance prev s (length a)) (drop (length a) s)) = Some e"
    by (auto dest!: first_alt_mem split: if_splits)
  from f obtain e' where
    e': "match_items ic rest (advance prev s (length a)) (drop (length a) s) = Some e'"
    and e: "e = length a + e'" by auto
  from lm have al: "length a \<le> length s" by (simp add: lit_matches_def)
  from "4.IH"[OF lm e'] have "e' \<le> length (drop (length a) s)" .
  with al e show ?case by simp
qed

text \<open>
  \<open>pattern.sub(repl, string)\<close>: the string is scanned from the left; at each position the
  pattern is tried, a match is replaced by \<open>repl\<close> and the scan goes on behind it; where
  the pattern does not match the character is copied. An empty match is replaced too and
  the scan moves one character on (none of the four patterns can match the empty string).
\<close>

function re_sub_from :: "compiled \<Rightarrow> string \<Rightarrow> char option \<Rightarrow> string \<Rightarrow> string" where
  "re_sub_from p repl prev s =
     (case match_at p prev s of
        Some n \<Rightarrow>
          if 0 < n then repl @ re_sub_from p repl (advance prev s n) (drop n s)
          else (case s of [] \<Rightarrow> repl | c # cs \<Rightarrow> repl @ c # re_sub_from p repl (Some c) cs)
      | None \<Rightarrow> (case s of [] \<Rightarrow> [] | c # cs \<Rightarrow> c # re_sub_from p repl (Some c) cs))"
  by pat_completeness auto
termination
proof (relation "measure (\<lambda>(p, repl, prev, s). length s)")
  show "wf (measure (\<lambda>(p, repl, prev, s). length s))" by simp
next
  fix p :: compiled and repl :: string and prev :: "char option" and s :: string and n :: nat
  assume m: "match_at p prev s = Some n" and pos: "0 < n"
  from m have "n \<le> length s" unfolding match_at_def by (rule match_items_le)
  with pos show "((p, repl, advance prev s n, drop n s), (p, repl, prev, s))
      \<in> measure (\<lambda>(p, repl, prev, s). length s)" by simp
qed auto

definition re_sub :: "compiled \<Rightarrow> string \<Rightarrow> string \<Rightarrow> string" where
  "re_sub p repl s = re_sub_from p repl None s"

definition lit :: "char \<Rightarrow> re_item" where
  "lit c = Rep [(c, c)] 1 (Some 1)"

text \<open>\<open>\b[A-Za-z0-9._%+-]+@[A-Za-z0-9.-]+\.[A-Z|a-z]{2,}\b\<close>\<close>

definition email_re :: compiled where
  "email_re =
     ([WordB,
       Rep [(CHR ''A'', CHR ''Z''), (CHR ''a'', CHR ''z''), (CHR ''0'', CHR ''9''),
            (CHR ''.'', CHR ''.''), (CHR ''_'', CHR ''_''), (CHR ''%'', CHR ''%''),
            (CHR ''+'', CHR ''+''), (CHR ''-'', CHR ''-'')] 1 None,
       lit (CHR ''@''),
       Rep [(CHR ''A'', CHR ''Z''), (CHR ''a'', CHR ''z''), (CHR ''0'', CHR ''9''),
            (CHR ''.'', CHR ''.''), (CHR ''-'', CHR ''-'')] 1 None,
       lit (CHR ''.''),
       Rep [(CHR ''A'', CHR ''Z''), (CHR ''|'', CHR ''|''), (CHR ''a'', CHR ''z'')] 2 None,
       WordB], False)"

text \<open>\<open>\b\d{3}[-.]?\d{3}[-.]?\d{4}\b\<close>\<close>

definition phone_re :: compiled where
  "phone_re =
     ([WordB,
       Rep digit_chars 3 (Some 3),
       Rep [(CHR ''-'', CHR ''-''), (CHR ''.'', CHR ''.'')] 0 (Some 1),
       Rep digit_chars 3 (Some 3),
       Rep [(CHR ''-'', CHR ''-''), (CHR ''.'', CHR ''.'')] 0 (Some 1),
       Rep digit_chars 4 (Some 4),
       WordB], False)"

text \<open>\<open>\b\d{3}-?\d{2}-?\d{4}\b\<close>\<close>

definition ssn_re :: compiled where
  "ssn_re =
     ([WordB,
       Rep digit_chars 3 (Some 3),
       Rep [(CHR ''-'', CHR ''-'')] 0 (Some 1),
       Rep digit_chars 2 (Some 2),
       Rep [(CHR ''-'', CHR ''-'')] 0 (Some 1),
       Rep digit_chars 4 (Some 4),
       WordB], False)"

text \<open>
  \<open>\b\d+\s+[A-Za-z\s]+(?:Street|St|Avenue|Ave|Road|Rd|Drive|Dr|Lane|Ln)\b\<close>, compiled
  with \<open>re.IGNORECASE\<close>.
\<close>

definition address_re :: compiled where
  "address_re =
     ([WordB,
       Rep digit_chars 1 None,
       Rep space_chars 1 None,
       Rep ([(CHR ''A'', CHR ''Z''), (CHR ''a'', CHR ''z'')] @ space_chars) 1 None,
       AltLit [''Street'', ''St'', ''Avenue'', ''Ave'', ''Road'', ''Rd'', ''Drive'', ''Dr'',
               ''Lane'', ''Ln''],
       WordB], True)"

text \<open>
  \<open>self.pii_patterns\<close>: a dictionary, iterated in insertion order by \<open>_mask_pii\<close>, so it is
  kept as an association list.
\<close>

definition pii_patterns :: "(string \<times> compiled) list" where
  "pii_patterns =
     [(''email'', email_re), (''phone'', phone_re), (''ssn'', ssn_re),
      (''address'', address_re)]"

section \<open>\<open>TransformRules\<close>\<close>

text \<open>The body of the loop of \<open>_mask_pii\<close>: the \<open>if\<close>/\<open>elif\<close> chain on the pattern's key.\<close>

definition mask_step :: "string \<times> compiled \<Rightarrow> string \<Rightarrow> string" where
  "mask_step item masked_content =
     (if fst item = ''email'' then re_sub (snd item) ''[EMAIL_MASKED]'' masked_content
      else if fst item = ''phone'' then re_sub (snd item) ''[PHONE_MASKED]'' masked_content
      else if fst item = ''ssn'' then re_sub (snd item) ''[SSN_MASKED]'' masked_content
      else if fst item = ''address'' then re_sub (snd item) ''[ADDRESS_MASKED]'' masked_content
      else masked_content)"

fun mask_loop :: "(string \<times> compiled) list \<Rightarrow> string \<Rightarrow> string" where
  "mask_loop [] masked_content = masked_content"
| "mask_loop (item # items) masked_content = mask_loop items (mask_step item masked_content)"

definition mask_pii :: "string \<Rightarrow> string" where
  "mask_pii txt = mask_loop pii_patterns txt"

definition apply_transform ::
  "(string \<rightharpoonup> source_entry) \<Rightarrow> string \<Rightarrow> string \<Rightarrow> string \<Rightarrow> string \<times> DocumentMetadata" where
  "apply_transform cfg txt src fp =
     (let entry = dict_get cfg src empty_entry;
          transformed_content =
            (if opt_get (cfg_pii_mask entry) False then mask_pii txt else txt);
          md = \<lparr>source_system = src,
                classification = opt_get (cfg_classification entry) ''PUBLIC'',
                weight = opt_get (cfg_weight entry) 1,
                file_path = fp,
                pii_masked = opt_get (cfg_pii_mask entry) False\<rparr>
      in (transformed_content, md))"

definition get_classification_weight :: "(string \<rightharpoonup> source_entry) \<Rightarrow> string \<Rightarrow> real" where
  "get_classification_weight cfg src = opt_get (cfg_weight (dict_get cfg src empty_entry)) 1"

section \<open>\<open>vectorstore.py\<close>\<close>

type_synonym vector = "real list"

record DocumentChunk =
  content :: string
  metadata :: DocumentMetadata
  embedding :: "vector option"

subsection \<open>The external capabilities\<close>

text \<open>
  The nearest-neighbour index (\<open>faiss.IndexFlatIP\<close>) is a dimension and the rows added so
  far: \<open>add\<close> appends the rows of a matrix and \<open>ntotal\<close> is their number. Its \<open>search\<close> is a
  parameter of the model, a function from the index, the query vector and \<open>k\<close> to the
  pairs of \<open>zip(scores[0], indices[0])\<close> or an exception. The embedding model is a
  parameter too, a function from a text to a vector, and so is the normalisation of one
  row: \<open>astype('float32')\<close> followed by \<open>faiss.normalize_L2\<close>, which computes in single
  precision.
\<close>

record faiss_index =
  index_d :: nat
  vectors :: "vector list"

type_synonym encoder = "string \<Rightarrow> vector"

type_synonym normalizer = "vector \<Rightarrow> vector"

type_synonym searcher = "faiss_index \<Rightarrow> vector \<Rightarrow> int \<Rightarrow> py_error + (real \<times> int) list"

definition IndexFlatIP :: "nat \<Rightarrow> faiss_index" where
  "IndexFlatIP dimn = \<lparr>index_d = dimn, vectors = []\<rparr>"

definition ntotal :: "faiss_index \<Rightarrow> nat" where
  "ntotal ix = length (vectors ix)"

definition index_add :: "faiss_index \<Rightarrow> vector list \<Rightarrow> faiss_index" where
  "index_add ix rows = ix\<lparr>vectors := vectors ix @ rows\<rparr>"

text \<open>
  The value with which a flat inner-product index fills the score of a missing
  neighbour (the lowest single-precision float); the index it reports there is \<open>-1\<close>.
\<close>

definition FLT_MAX :: real where
  "FLT_MAX = 340282346638528859811704183484516925440"

subsection \<open>Rounding to single precision\<close>

text \<open>
  \<open>score >= threshold\<close> compares a \<open>numpy.float32\<close> with a Python float. NumPy converts the
  Python float to \<open>float32\<close> and compares there. The conversion rounds to the nearest
  single-precision value, a tie to the one with the even significand: a multiple of
  \<open>2 ^ (e - 23)\<close> where \<open>2 ^ e\<close> is the power of two at or below the magnitude and \<open>e\<close> is
  at least \<open>-126\<close>; a result beyond \<open>FLT_MAX\<close> is an infinity.
\<close>

datatype f32 = NegInf | Fin real | PosInf

definition pow2 :: "int \<Rightarrow> real" where
  "pow2 e = (if 0 \<le> e then 2 ^ nat e else 1 / 2 ^ nat (- e))"

text \<open>
  \<open>binade n e a\<close>: the first of \<open>e, e - 1, \<dots>, e - n + 1\<close> whose power of two is at most \<open>a\<close>,
  and \<open>e - n\<close> when there is none.
\<close>

fun binade :: "nat \<Rightarrow> int \<Rightarrow> real \<Rightarrow> int" where
  "binade 0 e a = e"
| "binade (Suc n) e a = (if pow2 e \<le> a then e else binade n (e - 1) a)"

definition f32_exponent :: "real \<Rightarrow> int" where
  "f32_exponent a = binade 253 127 a"

definition round_half_even :: "real \<Rightarrow> int" where
  "round_half_even x =
     (let f = \<lfloor>x\<rfloor>; r = x - of_int f
      in if r < 1 / 2 then f else if 1 / 2 < r then f + 1 else if even f then f else f + 1)"

definition to_f32 :: "real \<Rightarrow> f32" where
  "to_f32 x =
     (let ulp = pow2 (f32_exponent \<bar>x\<bar> - 23);
          r = of_int (round_half_even (x / ulp)) * ulp
      in if FLT_MAX < r then PosInf else if r < - FLT_MAX then NegInf else Fin r)"

text \<open>\<open>f32_le t y\<close>: the single-precision value \<open>y\<close> is at least \<open>t\<close>.\<close>

fun f32_le :: "f32 \<Rightarrow> real \<Rightarrow> bool" where
  "f32_le NegInf y = True"
| "f32_le (Fin x) y = (x \<le> y)"
| "f32_le PosInf y = False"

subsection \<open>The store and its persisted artifacts\<close>

record VectorStore =
  index :: faiss_index
  documents :: "DocumentChunk list"
  dimension :: nat

datatype 'a artifact = Absent | Stored 'a | Damaged

text \<open>The two files \<open>{index_path}.index\<close> and \<open>{index_path}.docs\<close>.\<close>

record disk =
  index_file :: "faiss_index artifact"
  docs_file :: "DocumentChunk list artifact"

definition empty_disk :: disk where
  "empty_disk = \<lparr>index_file = Absent, docs_file = Absent\<rparr>"

text \<open>
  Where a save breaks off. Both files are opened for writing at their final path, so a
  write that breaks off after the file was opened leaves a damaged file behind.
  \<open>faiss.write_index\<close> raises when it cannot open the file and when a write reports
  fewer items than asked for; an error that only shows when the file is closed is
  printed and not raised, so the call returns with a damaged file. The \<open>with open(...)\<close>
  block raises on every failure.
\<close>

datatype index_fault =
    IndexOk
  | IndexOpenFails
  | IndexWriteRaises
  | IndexWriteSilent

datatype docs_fault =
    DocsOk
  | DocsOpenFails
  | DocsWriteFails

type_synonym save_fault = "index_fault \<times> docs_fault"

definition NoFault :: save_fault where
  "NoFault = (IndexOk, DocsOk)"

definition load_or_create_index :: "nat \<Rightarrow> disk \<Rightarrow> py_error + VectorStore" where
  "load_or_create_index dimn dk =
     (case index_file dk of
        Absent \<Rightarrow> Inr \<lparr>index = IndexFlatIP dimn, documents = [], dimension = dimn\<rparr>
      | Damaged \<Rightarrow> Inl RuntimeError
      | Stored ix \<Rightarrow>
          (case docs_file dk of
             Absent \<Rightarrow> Inl FileNotFoundError
           | Damaged \<Rightarrow> Inl UnpicklingError
           | Stored docs \<Rightarrow> Inr \<lparr>index = ix, documents = docs, dimension = dimn\<rparr>))"

text \<open>\<open>faiss.write_index(self.index, ...)\<close>: the exception raised, if any, and the file left.\<close>

definition write_index ::
  "faiss_index \<Rightarrow> faiss_index artifact \<Rightarrow> index_fault \<Rightarrow> py_error option \<times> faiss_index artifact" where
  "write_index ix old fault =
     (case fault of
        IndexOk \<Rightarrow> (None, Stored ix)
      | IndexOpenFails \<Rightarrow> (Some RuntimeError, old)
      | IndexWriteRaises \<Rightarrow> (Some RuntimeError, Damaged)
      | IndexWriteSilent \<Rightarrow> (None, Damaged))"

text \<open>\<open>with open(..., 'wb') as f: pickle.dump(self.documents, f)\<close>.\<close>

definition dump_docs ::
  "DocumentChunk list \<Rightarrow> DocumentChunk list artifact \<Rightarrow> docs_fault \<Rightarrow>
     py_error option \<times> DocumentChunk list artifact" where
  "dump_docs docs old fault =
     (case fault of
        DocsOk \<Rightarrow> (None, Stored docs)
      | DocsOpenFails \<Rightarrow> (Some OSError, old)
      | DocsWriteFails \<Rightarrow> (Some OSError, Damaged))"

definition save_index :: "VectorStore \<Rightarrow> disk \<Rightarrow> save_fault \<Rightarrow> py_error option \<times> disk" where
  "save_index st dk fault =
     (let written = write_index (index st) (index_file dk) (fst fault);
          dk1 = dk\<lparr>index_file := snd written\<rparr>
      in case fst written of
           Some e \<Rightarrow> (Some e, dk1)
         | None \<Rightarrow>
             (let dumped = dump_docs (documents st) (docs_file dk1) (snd fault)
              in (fst dumped, dk1\<lparr>docs_file := snd dumped\<rparr>)))"

subsection \<open>\<open>add_documents\<close>\<close>

text \<open>\<open>not chunk.embedding\<close>: the field is \<open>None\<close> or an empty list.\<close>

definition embedding_absent :: "DocumentChunk \<Rightarrow> bool" where
  "embedding_absent c = (case embedding c of None \<Rightarrow> True | Some v \<Rightarrow> v = [])"

definition embedding_value :: "DocumentChunk \<Rightarrow> vector" where
  "embedding_value c = (case embedding c of None \<Rightarrow> [] | Some v \<Rightarrow> v)"

definition fill_embedding :: "encoder \<Rightarrow> DocumentChunk \<Rightarrow> DocumentChunk" where
  "fill_embedding enc c =
     (if embedding_absent c then c\<lparr>embedding := Some (enc (content c))\<rparr> else c)"

text \<open>
  The first loop: the chunks as the loop leaves them (the caller's objects are assigned
  to), and the list \<open>embeddings\<close>.
\<close>

fun embed_chunks :: "encoder \<Rightarrow> DocumentChunk list \<Rightarrow> DocumentChunk list \<times> vector list" where
  "embed_chunks enc [] = ([], [])"
| "embed_chunks enc (c # cs) =
     (let c' = fill_embedding enc c;
          rest = embed_chunks enc cs
      in (c' # fst rest, embedding_value c' # snd rest))"

text \<open>\<open>np.vstack\<close> raises unless all rows have one length.\<close>

definition vstack :: "vector list \<Rightarrow> py_error + vector list" where
  "vstack rows =
     (case rows of
        [] \<Rightarrow> Inl ValueError
      | r # rs \<Rightarrow> if list_all (\<lambda>x. length x = length r) rs then Inr rows else Inl ValueError)"

text \<open>
  The result is the exception raised, if any, the chunks as the call leaves them, the
  store and the disk. \<open>index.add\<close> asserts that the matrix has as many columns as the
  index has dimensions; the cast and the normalisation keep the shape of the matrix.
\<close>

definition add_documents ::
  "encoder \<Rightarrow> normalizer \<Rightarrow> VectorStore \<Rightarrow> disk \<Rightarrow> save_fault \<Rightarrow> DocumentChunk list \<Rightarrow>
     py_error option \<times> DocumentChunk list \<times> VectorStore \<times> disk" where
  "add_documents enc nrm st dk fault chunks =
     (let filled = embed_chunks enc chunks;
          chunks' = fst filled;
          embeddings = snd filled
      in if embeddings = [] then (None, chunks', st, dk)
         else
           (case vstack embeddings of
              Inl e \<Rightarrow> (Some e, chunks', st, dk)
            | Inr rows \<Rightarrow>
                (let embeddings_matrix = map nrm rows
                 in if length (hd rows) \<noteq> index_d (index st)
                    then (Some AssertionError, chunks', st, dk)
                    else
                      (let st' = st\<lparr>index := index_add (index st) embeddings_matrix,
                                     documents := documents st @ chunks'\<rparr>;
                           saved = save_index st' dk fault
                       in (fst saved, chunks', st', snd saved)))))"

subsection \<open>\<open>similarity_search\<close> and \<open>weighted_search\<close>\<close>

text \<open>The dictionaries of the result list; \<open>weighted_search\<close> adds a key to each.\<close>

record search_result =
  r_content :: string
  r_metadata :: DocumentMetadata
  score :: real

record weighted_result = search_result +
  weighted_score :: real

text \<open>\<open>xs[i]\<close> for a Python int: a negative index counts from the end.\<close>

definition py_index :: "'a list \<Rightarrow> int \<Rightarrow> py_error + 'a" where
  "py_index xs i =
     (if 0 \<le> i
      then (if i < int (length xs) then Inr (xs ! nat i) else Inl IndexError)
      else (if - int (length xs) \<le> i then Inr (xs ! nat (int (length xs) + i))
            else Inl IndexError))"

text \<open>\<open>xs[:k]\<close> for a Python int.\<close>

definition py_prefix :: "'a list \<Rightarrow> int \<Rightarrow> 'a list" where
  "py_prefix xs k = (if 0 \<le> k then take (nat k) xs else take (length xs - nat (- k)) xs)"

text \<open>
  \<open>sorted(xs, key=f, reverse=True)\<close>: Python reverses the list, sorts it stably in
  ascending order and reverses it again, so equal keys keep their order.
\<close>

definition py_sorted :: "('a \<Rightarrow> real) \<Rightarrow> bool \<Rightarrow> 'a list \<Rightarrow> 'a list" where
  "py_sorted f reverse xs = (if reverse then rev (sort_key f (rev xs)) else sort_key f xs)"

fun collect_results ::
  "DocumentChunk list \<Rightarrow> real \<Rightarrow> (real \<times> int) list \<Rightarrow> search_result list \<Rightarrow>
     py_error + search_result list" where
  "collect_results docs thr [] results = Inr results"
| "collect_results docs thr (hit # hits) results =
     (if f32_le (to_f32 thr) (fst hit) \<and> snd hit < int (length docs)
      then (case py_index docs (snd hit) of
              Inl e \<Rightarrow> Inl e
            | Inr doc \<Rightarrow>
                collect_results docs thr hits
                  (results @ [\<lparr>r_content = content doc, r_metadata = metadata doc,
                               score = fst hit\<rparr>]))
      else collect_results docs thr hits results)"

definition similarity_search ::
  "encoder \<Rightarrow> normalizer \<Rightarrow> searcher \<Rightarrow> VectorStore \<Rightarrow> string \<Rightarrow> int \<Rightarrow> real \<Rightarrow>
     py_error + search_result list" where
  "similarity_search enc nrm search st qry k thr =
     (if ntotal (index st) = 0 then Inr []
      else
        (let query_embedding = nrm (enc qry)
         in case search (index st) query_embedding k of
              Inl e \<Rightarrow> Inl e
            | Inr hits \<Rightarrow> collect_results (documents st) thr hits []))"

definition assign_weighted_score :: "search_result \<Rightarrow> weighted_result" where
  "assign_weighted_score r =
     search_result.extend r
       (weighted_result.fields (score r * weight (r_metadata r)))"

definition weighted_search ::
  "encoder \<Rightarrow> normalizer \<Rightarrow> searcher \<Rightarrow> VectorStore \<Rightarrow> string \<Rightarrow> int \<Rightarrow> real \<Rightarrow>
     py_error + weighted_result list" where
  "weighted_search enc nrm search st qry k thr =
     (case similarity_search enc nrm search st qry (k * 2) thr of
        Inl e \<Rightarrow> Inl e
      | Inr raw_results \<Rightarrow>
          (let weighted_results = py_sorted weighted_score True (map assign_weighted_score raw_results)
           in Inr (py_prefix weighted_results k)))"

section \<open>\<open>query_service.py\<close>\<close>

record QueryRequest =
  query :: string
  top_k :: int
  threshold :: real

record Citation =
  c_content :: string
  c_source_system :: string
  c_classification :: string
  c_file_path :: string
  c_score :: real

record QueryResponse =
  answer :: string
  citations :: "Citation list"
  resp_query :: string

text \<open>
  The answer-generation capability: from the system prompt and the user prompt to the
  text of the first choice, or to the message of the exception raised. The calls made
  are recorded in a log, oldest first.
\<close>

type_synonym llm = "string \<Rightarrow> string \<Rightarrow> string + string"

type_synonym llm_log = "(string \<times> string) list"

definition nl :: string where
  "nl = [CHR 0x0A]"

fun join :: "string \<Rightarrow> string list \<Rightarrow> string" where
  "join sep [] = []"
| "join sep [x] = x"
| "join sep (x # y # ys) = x @ sep @ join sep (y # ys)"

definition is_space :: "char \<Rightarrow> bool" where
  "is_space c = list_ex (in_range c) space_chars"

definition py_strip :: "string \<Rightarrow> string" where
  "py_strip s = rev (dropWhile is_space (rev (dropWhile is_space s)))"

definition context_line :: "weighted_result \<Rightarrow> string" where
  "context_line doc =
     ''['' @ classification (r_metadata doc) @ ''] From '' @ source_system (r_metadata doc) @
     '': '' @ r_content doc"

definition build_context :: "weighted_result list \<Rightarrow> string" where
  "build_context docs = join (nl @ nl) (map context_line docs)"

definition system_prompt :: string where
  "system_prompt =
     ''You are a helpful assistant that answers questions based on provided resume and career documents. '' @
     nl @ ''        Use only the information provided in the context to answer questions. '' @
     nl @ ''        If you cannot answer based on the context, say so clearly.'' @
     nl @ ''        Be concise and professional.''"

definition user_prompt :: "string \<Rightarrow> string \<Rightarrow> string" where
  "user_prompt qry context =
     ''Context information:'' @ nl @ context @ nl @ nl @ ''Question: '' @ qry @ nl @ nl @
     ''Please provide a clear, concise answer based only on the context information provided.''"

definition generate_answer :: "llm \<Rightarrow> llm_log \<Rightarrow> string \<Rightarrow> string \<Rightarrow> string \<times> llm_log" where
  "generate_answer client lg qry context =
     (let up = user_prompt qry context
      in (case client system_prompt up of
            Inr txt \<Rightarrow> py_strip txt
          | Inl msg \<Rightarrow> ''Error generating response: '' @ msg,
          lg @ [(system_prompt, up)]))"

text \<open>
  Every dictionary that reaches \<open>_build_citations\<close> comes from \<open>weighted_search\<close> and has
  the key \<open>weighted_score\<close>, so \<open>doc.get('weighted_score', ...)\<close> is that value.
\<close>

definition build_citation :: "weighted_result \<Rightarrow> Citation" where
  "build_citation doc =
     \<lparr>c_content = (if 200 < length (r_content doc) then take 200 (r_content doc) @ ''...''
                    else r_content doc),
      c_source_system = source_system (r_metadata doc),
      c_classification = classification (r_metadata doc),
      c_file_path = file_path (r_metadata doc),
      c_score = weighted_score doc\<rparr>"

definition build_citations :: "weighted_result list \<Rightarrow> Citation list" where
  "build_citations docs = map build_citation docs"

definition process_query ::
  "encoder \<Rightarrow> normalizer \<Rightarrow> searcher \<Rightarrow> llm \<Rightarrow> VectorStore \<Rightarrow> llm_log \<Rightarrow> QueryRequest \<Rightarrow>
     (py_error + QueryResponse) \<times> llm_log" where
  "process_query enc nrm search client st lg request =
     (case weighted_search enc nrm search st (query request) (top_k request)
             (threshold request) of
        Inl e \<Rightarrow> (Inl e, lg)
      | Inr retrieved_docs \<Rightarrow>
          if retrieved_docs = []
          then (Inr \<lparr>answer = ''I couldn't find relevant information to answer your query.'',
                      citations = [], resp_query = query request\<rparr>, lg)
          else
            (let context = build_context retrieved_docs;
                 generated = generate_answer client lg (query request) context;
                 cits = build_citations retrieved_docs
             in (Inr \<lparr>answer = fst generated, citations = cits, resp_query = query request\<rparr>,
                 snd generated)))"

section \<open>The states of a store\<close>

text \<open>
  The pairs of store and disk that arise when a process starts on an empty disk, calls
  \<open>add_documents\<close> with saves that go through without a fault, and is started again on
  the artifacts it left. The disks that a save leaves when it breaks off are not among
  them.
\<close>

inductive reachable_committed :: "encoder \<Rightarrow> normalizer \<Rightarrow> VectorStore \<times> disk \<Rightarrow> bool"
  for enc :: encoder and nrm :: normalizer where
  start: "load_or_create_index dimn empty_disk = Inr st \<Longrightarrow>
        reachable_committed enc nrm (st, empty_disk)"
| add: "reachable_committed enc nrm (st, dk) \<Longrightarrow>
        add_documents enc nrm st dk NoFault chunks = (r, chunks', st', dk') \<Longrightarrow>
        reachable_committed enc nrm (st', dk')"
| reload: "reachable_committed enc nrm (st, dk) \<Longrightarrow>
        load_or_create_index dimn dk = Inr st' \<Longrightarrow>
        reachable_committed enc nrm (st', dk)"

definition disk_consistent :: "disk \<Rightarrow> bool" where
  "disk_consistent dk =
     (case index_file dk of
        Absent \<Rightarrow> True
      | Damaged \<Rightarrow> False
      | Stored ix \<Rightarrow>
          (case docs_file dk of Stored docs \<Rightarrow> length docs = ntotal ix | _ \<Rightarrow> False))"

section \<open>Sample data\<close>

text \<open>
  A flat inner-product index as a searcher: every stored row is scored by its inner
  product with the query, the rows are ranked by descending score, and the \<open>k\<close> slots
  that no row fills hold the score \<open>-FLT_MAX\<close> and the index \<open>-1\<close>.
\<close>

definition inner_product :: "vector \<Rightarrow> vector \<Rightarrow> real" where
  "inner_product u v = sum_list (map (\<lambda>p. fst p * snd p) (zip u v))"

definition flat_ip_search :: searcher where
  "flat_ip_search ix q k =
     (if k \<le> 0 \<or> length q \<noteq> index_d ix then Inl AssertionError
      else
        (let scored = zip (map (inner_product q) (vectors ix)) (map int [0..<ntotal ix]);
             ranked = rev (sort_key fst (rev scored))
         in Inr (take (nat k) ranked @ replicate (nat k - length ranked) (- FLT_MAX, - 1))))"

text \<open>
  A normaliser in exact arithmetic: a row is scaled by the inverse of its Euclidean norm,
  and a row of norm zero is left as it is. On the rows it is applied to below (all zeros,
  or entries \<open>0\<close>, \<open>1\<close>, \<open>-1\<close> and \<open>2\<close> with the norm \<open>2\<close>) every step of the single-precision
  computation is exact, so the library gives the same rows.
\<close>

definition sum_squares :: "vector \<Rightarrow> real" where
  "sum_squares v = sum_list (map (\<lambda>x. x * x) v)"

definition unit_normalize :: normalizer where
  "unit_normalize v =
     (if 0 < sum_squares v then map (\<lambda>x. x * (1 / sqrt (sum_squares v))) v else v)"

text \<open>Two chunks, an encoder, a store holding both chunks, and a source configuration.\<close>

definition md_hr :: DocumentMetadata where
  "md_hr = \<lparr>source_system = ''hr'', classification = ''CONFIDENTIAL'', weight = 1,
            file_path = ''hr/cv.txt#chunk_0'', pii_masked = True\<rparr>"

definition md_github :: DocumentMetadata where
  "md_github = \<lparr>source_system = ''github'', classification = ''PUBLIC'', weight = 1 / 2,
            file_path = ''github/readme.md#chunk_0'', pii_masked = False\<rparr>"

definition chunk_hr :: DocumentChunk where
  "chunk_hr = \<lparr>content = ''Resume'', metadata = md_hr, embedding = None\<rparr>"

definition chunk_github :: DocumentChunk where
  "chunk_github = \<lparr>content = ''Repos'', metadata = md_github, embedding = None\<rparr>"

definition sample_enc :: encoder where
  "sample_enc s =
     (if s = ''Resume'' then [9, 1, 3, 3]
      else if s = ''Repos'' then [9, 3, 3, 1]
      else [2, 0, 0, 0])"

definition sample_store :: VectorStore where
  "sample_store =
     \<lparr>index = \<lparr>index_d = 4, vectors = [[9/10, 3/10, 3/10, 1/10], [9/10, 1/10, 3/10, 3/10]]\<rparr>,
      documents = [chunk_github\<lparr>embedding := Some [9, 3, 3, 1]\<rparr>,
                   chunk_hr\<lparr>embedding := Some [9, 1, 3, 3]\<rparr>],
      dimension = 4\<rparr>"


text \<open>
  A second encoder, whose vectors have the norm \<open>2\<close>, and the stores and disks that
  \<open>add_documents\<close> builds with it from an empty disk: first one chunk, then the other.
\<close>

definition binary_enc :: encoder where
  "binary_enc s =
     (if s = ''Resume'' then [1, 1, 1, 1]
      else if s = ''Repos'' then [1, 1, - 1, - 1]
      else [2, 0, 0, 0])"

definition fresh_store :: VectorStore where
  "fresh_store = \<lparr>index = IndexFlatIP 4, documents = [], dimension = 4\<rparr>"

definition store_one :: VectorStore where
  "store_one =
     \<lparr>index = \<lparr>index_d = 4, vectors = [[1 / 2, 1 / 2, - (1 / 2), - (1 / 2)]]\<rparr>,
      documents = [chunk_github\<lparr>embedding := Some [1, 1, - 1, - 1]\<rparr>],
      dimension = 4\<rparr>"

definition store_two :: VectorStore where
  "store_two =
     \<lparr>index = \<lparr>index_d = 4,
                vectors = [[1 / 2, 1 / 2, - (1 / 2), - (1 / 2)], [1 / 2, 1 / 2, 1 / 2, 1 / 2]]\<rparr>,
      documents = [chunk_github\<lparr>embedding := Some [1, 1, - 1, - 1]\<rparr>,
                   chunk_hr\<lparr>embedding := Some [1, 1, 1, 1]\<rparr>],
      dimension = 4\<rparr>"

definition disk_one :: disk where
  "disk_one = \<lparr>index_file = Stored (index store_one), docs_file = Stored (documents store_one)\<rparr>"

definition disk_two :: disk where
  "disk_two = \<lparr>index_file = Stored (index store_two), docs_file = Stored (documents store_two)\<rparr>"

text \<open>The disk after the second chunk was added and the documents file could not be opened.\<close>

definition disk_broken :: disk where
  "disk_broken =
     \<lparr>index_file = Stored (index store_two), docs_file = Stored (documents store_one)\<rparr>"

definition zero_enc :: encoder where
  "zero_enc s = [0, 0, 0, 0]"

definition sample_request :: QueryRequest where
  "sample_request = \<lparr>query = ''career'', top_k = 5, threshold = 19 / 20\<rparr>"

definition sample_llm :: llm where
  "sample_llm sp up = Inr '' An answer. ''"

section \<open>Properties\<close>

lemma snd_apply_transform:
  "snd (apply_transform cfg txt src fp) =
     \<lparr>source_system = src,
      classification = opt_get (cfg_classification (dict_get cfg src empty_entry)) ''PUBLIC'',
      weight = opt_get (cfg_weight (dict_get cfg src empty_entry)) 1,
      file_path = fp,
      pii_masked = opt_get (cfg_pii_mask (dict_get cfg src empty_entry)) False\<rparr>"
  by (simp add: apply_transform_def Let_def)

text \<open>
  C9: the metadata returned by \<open>apply_transform\<close> has its classification, weight and
  \<open>pii_masked\<close> flag given by the configuration entry of the source alone, with
  \<open>PUBLIC\<close>, \<open>1.0\<close> and \<open>False\<close> where the source or the key is missing; it is the same for
  every content, so \<open>pii_masked\<close> is the configured flag whether or not a pattern matched.
\<close>

theorem apply_transform_metadata:
  "snd (apply_transform cfg txt src fp) =
     \<lparr>source_system = src,
      classification =
        (case cfg src of None \<Rightarrow> ''PUBLIC''
         | Some e \<Rightarrow> (case cfg_classification e of None \<Rightarrow> ''PUBLIC'' | Some c \<Rightarrow> c)),
      weight =
        (case cfg src of None \<Rightarrow> 1
         | Some e \<Rightarrow> (case cfg_weight e of None \<Rightarrow> 1 | Some w \<Rightarrow> w)),
      file_path = fp,
      pii_masked =
        (case cfg src of None \<Rightarrow> False
         | Some e \<Rightarrow> (case cfg_pii_mask e of None \<Rightarrow> False | Some b \<Rightarrow> b))\<rparr>
   \<and> snd (apply_transform cfg txt' src fp) = snd (apply_transform cfg txt src fp)"
  by (simp add: snd_apply_transform dict_get_def opt_get_def empty_entry_def
      split: option.splits)







lemma to_f32_examples:
  "to_f32 (7 / 10) = Fin (11744051 / 16777216)"
  "to_f32 (19 / 20) = Fin (15938355 / 16777216)"
  "to_f32 (500000001 / 1000000000) = Fin (1 / 2)"
  "to_f32 (- 340282346638528859811704183484516925440) =
     Fin (- 340282346638528859811704183484516925440)"
  by code_simp+

lemma collect_results_rounded:
  "collect_results docs thr hits acc = Inr results \<Longrightarrow>
   list_all (\<lambda>r. f32_le (to_f32 thr) (score r)) acc \<Longrightarrow>
   list_all (\<lambda>r. f32_le (to_f32 thr) (score r)) results"
proof (induction hits arbitrary: acc)
  case Nil
  then show ?case by simp
next
  case (Cons hit hits)
  show ?case
  proof (cases "f32_le (to_f32 thr) (fst hit) \<and> snd hit < int (length docs)")
    case True
    with Cons.prems(1) obtain doc :: DocumentChunk where
      "collect_results docs thr hits
         (acc @ [\<lparr>r_content = content doc, r_metadata = metadata doc, score = fst hit\<rparr>]) =
       Inr results"
      by (auto split: sum.splits)
    moreover have "list_all (\<lambda>r. f32_le (to_f32 thr) (score r))
         (acc @ [\<lparr>r_content = content doc, r_metadata = metadata doc, score = fst hit\<rparr>])"
      using True Cons.prems(2) by simp
    ultimately show ?thesis by (rule Cons.IH)
  next
    case False
    with Cons.prems(1) have "collect_results docs thr hits acc = Inr results" by auto
    then show ?thesis using Cons.prems(2) by (rule Cons.IH)
  qed
qed

lemma similarity_search_rounded_threshold:
  assumes "similarity_search enc nrm search st qry k thr = Inr results"
    and "r \<in> set results"
  shows "f32_le (to_f32 thr) (score r)"
proof -
  have "list_all (\<lambda>r. f32_le (to_f32 thr) (score r)) results"
  proof (cases "ntotal (index st) = 0")
    case True
    with assms(1) show ?thesis by (simp add: similarity_search_def)
  next
    case False
    with assms(1) obtain hits where
      "collect_results (documents st) thr hits [] = Inr results"
      by (auto simp: similarity_search_def Let_def split: sum.splits)
    then show ?thesis by (rule collect_results_rounded) simp
  qed
  with assms(2) show ?thesis by (simp add: list_all_iff)
qed

lemmas search_eval =
  similarity_search_def flat_ip_search_def inner_product_def ntotal_def unit_normalize_def
  sum_squares_def Let_def py_index_def FLT_MAX_def to_f32_examples chunk_hr_def
  chunk_github_def

text \<open>
  C2: the comparison \<open>score >= threshold\<close> is made in single precision, with the threshold
  rounded. The store holds one document whose score for the query is exactly \<open>0.5\<close>; the
  threshold \<open>0.500000001\<close> rounds to \<open>0.5\<close>, the candidate passes, and the result returned
  has the score \<open>0.5\<close>, below the threshold.
\<close>

theorem similarity_search_below_threshold:
  "similarity_search binary_enc unit_normalize flat_ip_search store_one ''career'' 1
     (500000001 / 1000000000) =
     Inr [\<lparr>r_content = ''Repos'', r_metadata = md_github, score = 1 / 2\<rparr>]
   \<and> (1 / 2 :: real) < 500000001 / 1000000000
   \<and> to_f32 (500000001 / 1000000000) = Fin (1 / 2)
   \<and> flat_ip_search (index store_one) (unit_normalize (binary_enc ''career'')) 1 =
       Inr [(1 / 2, 0)]"
  by (simp add: search_eval store_one_def binary_enc_def)

lemma sample_similarity_search:
  "similarity_search sample_enc unit_normalize flat_ip_search sample_store ''career'' 3
     (7 / 10) =
     Inr [\<lparr>r_content = ''Repos'', r_metadata = md_github, score = 9 / 10\<rparr>,
          \<lparr>r_content = ''Resume'', r_metadata = md_hr, score = 9 / 10\<rparr>]"
  by (simp add: search_eval sample_store_def sample_enc_def)

text \<open>
  C6: the bound check of \<open>similarity_search\<close> is \<open>idx < len(self.documents)\<close> only. With
  two documents, \<open>k = 3\<close> and a threshold of \<open>-FLT_MAX\<close>, the index reports the missing
  third neighbour as \<open>(-FLT_MAX, -1)\<close>; the candidate passes the check,
  \<open>self.documents[-1]\<close> is the last document, and its content and metadata are returned
  as a third result.
\<close>

theorem similarity_search_negative_index:
  "similarity_search sample_enc unit_normalize flat_ip_search sample_store ''career'' 3
     (- FLT_MAX) =
     Inr [\<lparr>r_content = ''Repos'', r_metadata = md_github, score = 9 / 10\<rparr>,
          \<lparr>r_content = ''Resume'', r_metadata = md_hr, score = 9 / 10\<rparr>,
          \<lparr>r_content = ''Resume'', r_metadata = md_hr, score = - FLT_MAX\<rparr>]
   \<and> flat_ip_search (index sample_store) (unit_normalize (sample_enc ''career'')) 3 =
       Inr [(9 / 10, 0), (9 / 10, 1), (- FLT_MAX, - 1)]"
  by (simp add: search_eval sample_store_def sample_enc_def)

lemma py_sorted_rev_mset: "mset (py_sorted f True xs) = mset xs"
  by (simp add: py_sorted_def)

lemma py_sorted_rev_sorted: "sorted (rev (map f (py_sorted f True xs)))"
  by (simp add: py_sorted_def rev_map)

lemma py_sorted_rev_stable:
  "filter (\<lambda>x. f x = v) (py_sorted f True xs) = filter (\<lambda>x. f x = v) xs"
  by (simp add: py_sorted_def rev_filter [symmetric] sort_key_stable)

lemma assign_weighted_score_fields:
  "weighted_score (assign_weighted_score r) = score r * weight (r_metadata r)"
  "search_result.truncate (assign_weighted_score r) = r"
  "score (assign_weighted_score r) = score r"
  "r_content (assign_weighted_score r) = r_content r"
  "r_metadata (assign_weighted_score r) = r_metadata r"
  by (simp_all add: assign_weighted_score_def search_result.defs weighted_result.defs)

text \<open>
  C1: for \<open>k \<ge> 1\<close>, \<open>weighted_search\<close> asks \<open>similarity_search\<close> for \<open>2 * k\<close> candidates at
  the same threshold and passes its exception on; otherwise every candidate gets
  \<open>weighted_score = score * metadata.weight\<close> and keeps its other keys, the candidates are
  rearranged into descending order of \<open>weighted_score\<close> with equal keys in their input
  order, and the first \<open>k\<close> of that list are returned, so at most \<open>k\<close>. Of two candidates
  with raw score \<open>0.9\<close> and weights \<open>1.0\<close> and \<open>0.5\<close>, in either input order, the one
  with weight \<open>1.0\<close> comes first.
\<close>

theorem weighted_search_ranking:
  assumes "1 \<le> k"
  shows "(case similarity_search enc nrm search st qry (2 * k) thr of
            Inl e \<Rightarrow> weighted_search enc nrm search st qry k thr = Inl e
          | Inr raw \<Rightarrow>
              (let cands = map assign_weighted_score raw;
                   ranked = py_sorted weighted_score True cands
               in weighted_search enc nrm search st qry k thr = Inr (take (nat k) ranked)
                  \<and> length (take (nat k) ranked) \<le> nat k
                  \<and> map weighted_score cands = map (\<lambda>r. score r * weight (r_metadata r)) raw
                  \<and> map search_result.truncate cands = raw
                  \<and> mset ranked = mset cands
                  \<and> sorted (rev (map weighted_score ranked))
                  \<and> (\<forall>w. filter (\<lambda>r. weighted_score r = w) ranked =
                           filter (\<lambda>r. weighted_score r = w) cands)))
         \<and> py_sorted weighted_score True
             (map assign_weighted_score
                [\<lparr>r_content = c1, r_metadata = m1\<lparr>weight := 1 / 2\<rparr>, score = 9 / 10\<rparr>,
                 \<lparr>r_content = c2, r_metadata = m2\<lparr>weight := 1\<rparr>, score = 9 / 10\<rparr>]) =
             [\<lparr>r_content = c2, r_metadata = m2\<lparr>weight := 1\<rparr>, score = 9 / 10,
                weighted_score = 9 / 10\<rparr>,
              \<lparr>r_content = c1, r_metadata = m1\<lparr>weight := 1 / 2\<rparr>, score = 9 / 10,
                weighted_score = 9 / 20\<rparr>]
         \<and> py_sorted weighted_score True
             (map assign_weighted_score
                [\<lparr>r_content = c2, r_metadata = m2\<lparr>weight := 1\<rparr>, score = 9 / 10\<rparr>,
                 \<lparr>r_content = c1, r_metadata = m1\<lparr>weight := 1 / 2\<rparr>, score = 9 / 10\<rparr>]) =
             [\<lparr>r_content = c2, r_metadata = m2\<lparr>weight := 1\<rparr>, score = 9 / 10,
                weighted_score = 9 / 10\<rparr>,
              \<lparr>r_content = c1, r_metadata = m1\<lparr>weight := 1 / 2\<rparr>, score = 9 / 10,
                weighted_score = 9 / 20\<rparr>]"
proof -
  have k2: "k * 2 = 2 * k" by simp
  have pre: "\<And>xs :: weighted_result list. py_prefix xs k = take (nat k) xs"
    using assms by (simp add: py_prefix_def)
  have main: "case similarity_search enc nrm search st qry (2 * k) thr of
            Inl e \<Rightarrow> weighted_search enc nrm search st qry k thr = Inl e
          | Inr raw \<Rightarrow>
              (let cands = map assign_weighted_score raw;
                   ranked = py_sorted weighted_score True cands
               in weighted_search enc nrm search st qry k thr = Inr (take (nat k) ranked)
                  \<and> length (take (nat k) ranked) \<le> nat k
                  \<and> map weighted_score cands = map (\<lambda>r. score r * weight (r_metadata r)) raw
                  \<and> map search_result.truncate cands = raw
                  \<and> mset ranked = mset cands
                  \<and> sorted (rev (map weighted_score ranked))
                  \<and> (\<forall>w. filter (\<lambda>r. weighted_score r = w) ranked =
                           filter (\<lambda>r. weighted_score r = w) cands))"
  proof (cases "similarity_search enc nrm search st qry (2 * k) thr")
    case (Inl e)
    then show ?thesis by (simp add: weighted_search_def k2)
  next
    case (Inr raw)
    have "map search_result.truncate (map assign_weighted_score raw) = raw"
      by (induction raw) (simp_all add: assign_weighted_score_fields)
    then show ?thesis
      using Inr
      by (simp add: weighted_search_def k2 pre Let_def py_sorted_rev_mset py_sorted_rev_sorted
          py_sorted_rev_stable assign_weighted_score_fields comp_def)
  qed
  have ex1: "py_sorted weighted_score True
             (map assign_weighted_score
                [\<lparr>r_content = c1, r_metadata = m1\<lparr>weight := 1 / 2\<rparr>, score = 9 / 10\<rparr>,
                 \<lparr>r_content = c2, r_metadata = m2\<lparr>weight := 1\<rparr>, score = 9 / 10\<rparr>]) =
             [\<lparr>r_content = c2, r_metadata = m2\<lparr>weight := 1\<rparr>, score = 9 / 10,
                weighted_score = 9 / 10\<rparr>,
              \<lparr>r_content = c1, r_metadata = m1\<lparr>weight := 1 / 2\<rparr>, score = 9 / 10,
                weighted_score = 9 / 20\<rparr>]"
    by (simp add: py_sorted_def assign_weighted_score_def search_result.defs
        weighted_result.defs)
  have ex2: "py_sorted weighted_score True
             (map assign_weighted_score
                [\<lparr>r_content = c2, r_metadata = m2\<lparr>weight := 1\<rparr>, score = 9 / 10\<rparr>,
                 \<lparr>r_content = c1, r_metadata = m1\<lparr>weight := 1 / 2\<rparr>, score = 9 / 10\<rparr>]) =
             [\<lparr>r_content = c2, r_metadata = m2\<lparr>weight := 1\<rparr>, score = 9 / 10,
                weighted_score = 9 / 10\<rparr>,
              \<lparr>r_content = c1, r_metadata = m1\<lparr>weight := 1 / 2\<rparr>, score = 9 / 10,
                weighted_score = 9 / 20\<rparr>]"
    by (simp add: py_sorted_def assign_weighted_score_def search_result.defs
        weighted_result.defs)
  from main ex1 ex2 show ?thesis by blast
qed

lemma sample_similarity_search2:
  "similarity_search sample_enc unit_normalize flat_ip_search sample_store ''career'' 2 (7 / 10) =
     Inr [\<lparr>r_content = ''Repos'', r_metadata = md_github, score = 9 / 10\<rparr>,
          \<lparr>r_content = ''Resume'', r_metadata = md_hr, score = 9 / 10\<rparr>]"
  by (simp add: search_eval sample_store_def sample_enc_def)

theorem weighted_search_ranking_witness:
  "(1::int) \<le> 1
   \<and> weighted_search sample_enc unit_normalize flat_ip_search sample_store ''career'' 1 (7 / 10) =
       Inr [\<lparr>r_content = ''Resume'', r_metadata = md_hr, score = 9 / 10,
              weighted_score = 9 / 10\<rparr>]"
proof -
  have h: "(1::int) \<le> 1" by simp
  from weighted_search_ranking [OF h, of sample_enc unit_normalize flat_ip_search sample_store "''career''"
      "7 / 10"]
  show ?thesis
    by (simp add: sample_similarity_search2 Let_def py_sorted_def assign_weighted_score_def
        search_result.defs weighted_result.defs md_hr_def md_github_def)
qed

text \<open>
  C8: when the weighted retrieval returns an empty list, \<open>process_query\<close> answers with
  the fixed sentence and an empty citation list, and the log of calls to the
  answer-generation capability is unchanged: the capability is not invoked.
\<close>

theorem process_query_no_results:
  assumes "weighted_search enc nrm search st (query request) (top_k request) (threshold request) =
             Inr []"
  shows "process_query enc nrm search client st lg request =
           (Inr \<lparr>answer = ''I couldn't find relevant information to answer your query.'',
                  citations = [], resp_query = query request\<rparr>, lg)"
  using assms by (simp add: process_query_def)

lemma process_query_invokes_llm:
  assumes "weighted_search enc nrm search st (query request) (top_k request) (threshold request) =
             Inr docs" and "docs \<noteq> []"
  shows "snd (process_query enc nrm search client st lg request) =
           lg @ [(system_prompt, user_prompt (query request) (build_context docs))]"
  using assms by (simp add: process_query_def generate_answer_def Let_def)

lemma sample_weighted_search_empty:
  "weighted_search sample_enc unit_normalize flat_ip_search sample_store (query sample_request)
     (top_k sample_request) (threshold sample_request) = Inr []"
  by (simp add: weighted_search_def search_eval sample_store_def sample_enc_def
      sample_request_def py_sorted_def py_prefix_def eval_nat_numeral)

theorem process_query_no_results_witness:
  "weighted_search sample_enc unit_normalize flat_ip_search sample_store (query sample_request)
     (top_k sample_request) (threshold sample_request) = Inr []
   \<and> process_query sample_enc unit_normalize flat_ip_search sample_llm sample_store [] sample_request =
       (Inr \<lparr>answer = ''I couldn't find relevant information to answer your query.'',
              citations = [], resp_query = ''career''\<rparr>, [])"
  using process_query_no_results [OF sample_weighted_search_empty, of sample_llm "[]"]
    sample_weighted_search_empty
  by (simp add: sample_request_def)

text \<open>
  C4: a save without a fault, followed by a load of the two artifacts, gives a store with
  the saved index and documents (the saved store itself when the dimension argument is
  the same), and with the same encoder, normaliser and index search \<open>similarity_search\<close>
  returns on it
  what it returns on the saved store, for every query, \<open>k\<close> and threshold.
\<close>

theorem save_load_roundtrip:
  "fst (save_index st dk NoFault) = None
   \<and> load_or_create_index (dimension st) (snd (save_index st dk NoFault)) = Inr st
   \<and> (case load_or_create_index dimn (snd (save_index st dk NoFault)) of
        Inl e \<Rightarrow> False
      | Inr st' \<Rightarrow>
          index st' = index st \<and> documents st' = documents st
          \<and> similarity_search enc nrm search st' qry k thr =
              similarity_search enc nrm search st qry k thr)"
  by (simp add: save_index_def write_index_def dump_docs_def NoFault_def
      load_or_create_index_def similarity_search_def Let_def split: sum.splits)


lemma fst_embed_chunks: "fst (embed_chunks enc cs) = map (fill_embedding enc) cs"
  by (induction cs) (simp_all add: Let_def)

lemma snd_embed_chunks:
  "snd (embed_chunks enc cs) = map (\<lambda>c. embedding_value (fill_embedding enc c)) cs"
  by (induction cs) (simp_all add: Let_def)

lemma vstack_Inr: "vstack rows = Inr m \<Longrightarrow> m = rows"
  by (auto simp: vstack_def split: list.splits if_splits)

lemma add_documents_cases:
  assumes "add_documents enc nrm st dk fault chunks = (r, chunks', st', dk')"
  shows "chunks' = map (fill_embedding enc) chunks \<and>
         ((st' = st \<and> dk' = dk \<and> (chunks = [] \<or> r \<noteq> None)) \<or>
          (chunks \<noteq> [] \<and>
           st' = st\<lparr>index := index_add (index st)
                        (map (\<lambda>c. nrm (embedding_value c)) chunks'),
                     documents := documents st @ chunks'\<rparr> \<and>
           (r, dk') = save_index st' dk fault))"
proof (cases "chunks = []")
  case True
  with assms show ?thesis by (simp add: add_documents_def)
next
  case False
  let ?embs = "map (\<lambda>c. embedding_value (fill_embedding enc c)) chunks"
  have ne: "?embs \<noteq> []" using False by simp
  show ?thesis
  proof (cases "vstack ?embs")
    case (Inl e)
    with assms ne show ?thesis
      by (auto simp: add_documents_def Let_def fst_embed_chunks snd_embed_chunks)
  next
    case (Inr rows)
    then have rows: "rows = ?embs" by (rule vstack_Inr)
    show ?thesis
    proof (cases "length (hd rows) \<noteq> index_d (index st)")
      case True
      with assms ne Inr show ?thesis
        by (auto simp: add_documents_def Let_def fst_embed_chunks snd_embed_chunks)
    next
      case nomismatch: False
      with assms ne Inr rows False show ?thesis
        by (auto simp: add_documents_def Let_def fst_embed_chunks snd_embed_chunks comp_def
            prod_eq_iff)
    qed
  qed
qed

lemma add_documents_invariant:
  assumes "length (documents st) = ntotal (index st)"
    and "add_documents enc nrm st dk fault chunks = (r, chunks', st', dk')"
  shows "length (documents st') = ntotal (index st')"
  using add_documents_cases [OF assms(2)] assms(1)
  by (auto simp: ntotal_def index_add_def)

lemma save_index_NoFault:
  "save_index st dk NoFault =
     (None, \<lparr>index_file = Stored (index st), docs_file = Stored (documents st)\<rparr>)"
  by (simp add: save_index_def write_index_def dump_docs_def NoFault_def Let_def)

lemma save_index_consistent:
  "length (documents st) = ntotal (index st) \<Longrightarrow>
   disk_consistent (snd (save_index st dk NoFault))"
  by (simp add: save_index_NoFault disk_consistent_def)

lemma add_documents_disk:
  assumes "length (documents st) = ntotal (index st)" and "disk_consistent dk"
    and "add_documents enc nrm st dk NoFault chunks = (r, chunks', st', dk')"
  shows "disk_consistent dk'"
proof -
  from add_documents_cases [OF assms(3)]
  consider "dk' = dk" | "(r, dk') = save_index st' dk NoFault" by blast
  then show ?thesis
  proof cases
    case 1
    with assms(2) show ?thesis by simp
  next
    case 2
    have "length (documents st') = ntotal (index st')"
      using assms(1,3) by (rule add_documents_invariant)
    from save_index_consistent [OF this, of dk] 2 show ?thesis
      by (metis snd_conv)
  qed
qed

lemma load_consistent:
  "disk_consistent dk \<Longrightarrow> load_or_create_index dimn dk = Inr st \<Longrightarrow>
   length (documents st) = ntotal (index st)"
  by (auto simp: disk_consistent_def load_or_create_index_def ntotal_def IndexFlatIP_def
      split: artifact.splits)

lemma reachable_committed_invariant:
  "reachable_committed enc nrm p \<Longrightarrow>
   length (documents (fst p)) = ntotal (index (fst p)) \<and> disk_consistent (snd p)"
proof (induction rule: reachable_committed.induct)
  case (start dimn st)
  then show ?case
    by (auto simp: load_or_create_index_def empty_disk_def disk_consistent_def ntotal_def
        IndexFlatIP_def)
next
  case (add st dk chunks r chunks' st' dk')
  then show ?case
    using add_documents_invariant [of st enc nrm dk NoFault chunks r chunks' st' dk']
      add_documents_disk [of st dk enc nrm chunks r chunks' st' dk']
    by simp
next
  case (reload st dk dimn st')
  then show ?case using load_consistent [of dk dimn st'] by simp
qed

lemmas add_eval =
  add_documents_def fill_embedding_def embedding_absent_def embedding_value_def vstack_def
  unit_normalize_def sum_squares_def index_add_def IndexFlatIP_def save_index_def
  write_index_def dump_docs_def NoFault_def empty_disk_def Let_def chunk_hr_def
  chunk_github_def

lemma load_empty_disk: "load_or_create_index 4 empty_disk = Inr fresh_store"
  by (simp add: load_or_create_index_def empty_disk_def fresh_store_def)

lemma add_first:
  "add_documents binary_enc unit_normalize fresh_store empty_disk NoFault [chunk_github] =
     (None, documents store_one, store_one, disk_one)"
  by (simp add: add_eval binary_enc_def fresh_store_def store_one_def disk_one_def)

lemma add_second:
  "add_documents binary_enc unit_normalize store_one disk_one NoFault [chunk_hr] =
     (None, [chunk_hr\<lparr>embedding := Some [1, 1, 1, 1]\<rparr>], store_two, disk_two)"
  by (simp add: add_eval binary_enc_def store_one_def store_two_def disk_one_def disk_two_def)

lemma add_second_broken:
  "add_documents binary_enc unit_normalize store_one disk_one (IndexOk, DocsOpenFails)
     [chunk_hr] =
     (Some OSError, [chunk_hr\<lparr>embedding := Some [1, 1, 1, 1]\<rparr>], store_two, disk_broken)"
  by (simp add: add_eval binary_enc_def store_one_def store_two_def disk_one_def
      disk_broken_def)

lemma add_both:
  "add_documents binary_enc unit_normalize fresh_store empty_disk NoFault
     [chunk_github, chunk_hr] =
     (None, documents store_two, store_two, disk_two)"
  by (simp add: add_eval binary_enc_def fresh_store_def store_two_def disk_two_def)

lemma reachable_store_two: "reachable_committed binary_enc unit_normalize (store_two, disk_two)"
proof -
  have "reachable_committed binary_enc unit_normalize (fresh_store, empty_disk)"
    using load_empty_disk by (rule reachable_committed.start)
  then have "reachable_committed binary_enc unit_normalize (store_one, disk_one)"
    using add_first by (rule reachable_committed.add)
  then show ?thesis using add_second by (rule reachable_committed.add)
qed

text \<open>
  C3 as stated fails for a store loaded after a save that broke off. From an empty disk
  one chunk is added and saved; a second chunk is added and the documents file cannot be
  opened. \<open>_load_or_create_index\<close> then loads the new index of two rows and the old list
  of one document, without any check.
\<close>

theorem load_after_broken_save_counterexample:
  "load_or_create_index 4 empty_disk = Inr fresh_store
   \<and> add_documents binary_enc unit_normalize fresh_store empty_disk NoFault [chunk_github] =
       (None, documents store_one, store_one, disk_one)
   \<and> add_documents binary_enc unit_normalize store_one disk_one (IndexOk, DocsOpenFails)
        [chunk_hr] =
       (Some OSError, [chunk_hr\<lparr>embedding := Some [1, 1, 1, 1]\<rparr>], store_two, disk_broken)
   \<and> load_or_create_index 4 disk_broken =
       Inr \<lparr>index = index store_two, documents = documents store_one, dimension = 4\<rparr>
   \<and> ntotal (index store_two) = 2
   \<and> length (documents store_one) = 1"
  using load_empty_disk add_first add_second_broken
  by (simp add: load_or_create_index_def disk_broken_def store_one_def store_two_def
      ntotal_def)

text \<open>
  C3, as the code has it: \<open>len(documents) == index.ntotal\<close> holds in every state reached
  from an empty disk by creating the store, calling \<open>add_documents\<close> with saves that go
  through without a fault, and loading the artifacts they left; \<open>add_documents\<close> preserves
  it in memory for every list of chunks, also when the call raises (an exception of
  \<open>np.vstack\<close>, of \<open>index.add\<close>, or of the save); and a store loaded from the artifacts
  of a save without a fault has it when the saved store had it.
\<close>

theorem documents_match_index:
  "(reachable_committed enc nrm (st, dk) \<longrightarrow> length (documents st) = ntotal (index st))
   \<and> (length (documents st) = ntotal (index st) \<longrightarrow>
        add_documents enc nrm st dk fault chunks = (r, chunks', st', dk') \<longrightarrow>
        length (documents st') = ntotal (index st'))
   \<and> (length (documents st) = ntotal (index st) \<longrightarrow>
        (case load_or_create_index dimn (snd (save_index st dk NoFault)) of
           Inl e \<Rightarrow> False
         | Inr st2 \<Rightarrow> length (documents st2) = ntotal (index st2)))"
  using reachable_committed_invariant [of enc nrm "(st, dk)"]
    add_documents_invariant [of st enc nrm dk fault chunks r chunks' st' dk']
  by (auto simp: save_index_NoFault load_or_create_index_def)

theorem documents_match_index_witness:
  "reachable_committed binary_enc unit_normalize (store_two, disk_two)
   \<and> length (documents store_two) = ntotal (index store_two)
   \<and> length (documents store_one) = ntotal (index store_one)
   \<and> add_documents binary_enc unit_normalize store_one disk_one (IndexOk, DocsOpenFails)
        [chunk_hr] =
       (Some OSError, [chunk_hr\<lparr>embedding := Some [1, 1, 1, 1]\<rparr>], store_two, disk_broken)
   \<and> load_or_create_index 4 (snd (save_index store_two disk_one NoFault)) = Inr store_two"
  using documents_match_index [of binary_enc unit_normalize store_two disk_two]
    documents_match_index [of binary_enc unit_normalize store_one disk_one
      "(IndexOk, DocsOpenFails)" "[chunk_hr]" "Some OSError"
      "[chunk_hr\<lparr>embedding := Some [1, 1, 1, 1]\<rparr>]" store_two disk_broken]
    reachable_store_two add_second_broken
  by (simp add: store_one_def store_two_def ntotal_def save_index_NoFault
      load_or_create_index_def)

text \<open>
  C7 as stated fails on a save that breaks off: the disk holds the artifacts of a store
  with one document, the store has a second document, and the documents file cannot be
  opened. The index file already holds the new index of two rows while the documents file
  still holds one document, so the disk is no longer the last persisted state. When the
  index write fails without being reported, the save returns normally and leaves a
  damaged index file beside the new documents file.
\<close>

theorem save_failure_overwrites_index_counterexample:
  "save_index store_one empty_disk NoFault = (None, disk_one)
   \<and> save_index store_two disk_one (IndexOk, DocsOpenFails) = (Some OSError, disk_broken)
   \<and> disk_broken \<noteq> disk_one
   \<and> index_file disk_one = Stored (index store_one)
   \<and> index_file disk_broken = Stored (index store_two)
   \<and> docs_file disk_broken = Stored (documents store_one)
   \<and> index store_two \<noteq> index store_one
   \<and> save_index store_two disk_one (IndexWriteSilent, DocsOk) =
       (None, \<lparr>index_file = Damaged, docs_file = Stored (documents store_two)\<rparr>)"
  by (simp add: save_index_def write_index_def dump_docs_def NoFault_def Let_def
      disk_one_def disk_broken_def empty_disk_def store_one_def store_two_def)

text \<open>
  C7, as the code has it: \<open>_save_index\<close> writes the index file and then the documents file
  at their final paths. A save without a fault leaves both holding the in-memory state;
  when the index file cannot be opened the call raises and the disk is as it was; after
  any other fault the index file is damaged or already holds the new index, and the
  documents file is the old one, damaged, or the new one. The call raises, except when
  the only fault is an index write whose failure is not reported.
\<close>

theorem save_index_writes_in_place:
  "save_index st dk NoFault =
     (None, \<lparr>index_file = Stored (index st), docs_file = Stored (documents st)\<rparr>)
   \<and> save_index st dk (IndexOpenFails, fd) = (Some RuntimeError, dk)
   \<and> (fi \<noteq> IndexOpenFails \<and> (fi, fd) \<noteq> NoFault \<longrightarrow>
        (index_file (snd (save_index st dk (fi, fd))) = Damaged
           \<or> index_file (snd (save_index st dk (fi, fd))) = Stored (index st))
        \<and> (docs_file (snd (save_index st dk (fi, fd))) = docs_file dk
           \<or> docs_file (snd (save_index st dk (fi, fd))) = Damaged
           \<or> docs_file (snd (save_index st dk (fi, fd))) = Stored (documents st))
        \<and> ((fst (save_index st dk (fi, fd)) = None) = (fi = IndexWriteSilent \<and> fd = DocsOk)))"
  by (cases fi; cases fd)
    (simp_all add: save_index_def write_index_def dump_docs_def NoFault_def Let_def)

theorem save_index_writes_in_place_witness:
  "IndexOk \<noteq> IndexOpenFails \<and> (IndexOk, DocsOpenFails) \<noteq> NoFault
   \<and> save_index store_two disk_one (IndexOk, DocsOpenFails) = (Some OSError, disk_broken)
   \<and> index_file disk_broken = Stored (index store_two)
   \<and> docs_file disk_broken = docs_file disk_one
   \<and> save_index store_two disk_one NoFault = (None, disk_two)"
  using save_index_writes_in_place [of store_two disk_one DocsOpenFails IndexOk]
  by (simp add: save_index_def write_index_def dump_docs_def NoFault_def Let_def
      disk_one_def disk_two_def disk_broken_def)

text \<open>
  C10 as stated fails on a zero vector. An all-zero embedding is left unchanged by the
  normalisation: the persisted embedding and the indexed row are both zero, although the
  vector is not of unit length. This holds for a chunk whose embedding the encoder
  computes and for a chunk that brings its embedding along.
\<close>

theorem add_documents_zero_vector_counterexample:
  "add_documents zero_enc unit_normalize fresh_store empty_disk NoFault [chunk_hr] =
     (None, [chunk_hr\<lparr>embedding := Some [0, 0, 0, 0]\<rparr>],
      \<lparr>index = \<lparr>index_d = 4, vectors = [[0, 0, 0, 0]]\<rparr>,
        documents = [chunk_hr\<lparr>embedding := Some [0, 0, 0, 0]\<rparr>], dimension = 4\<rparr>,
      \<lparr>index_file = Stored \<lparr>index_d = 4, vectors = [[0, 0, 0, 0]]\<rparr>,
        docs_file = Stored [chunk_hr\<lparr>embedding := Some [0, 0, 0, 0]\<rparr>]\<rparr>)
   \<and> sum_squares (zero_enc (content chunk_hr)) \<noteq> 1
   \<and> add_documents binary_enc unit_normalize fresh_store empty_disk NoFault
        [chunk_hr\<lparr>embedding := Some [0, 0, 0, 0]\<rparr>] =
     (None, [chunk_hr\<lparr>embedding := Some [0, 0, 0, 0]\<rparr>],
      \<lparr>index = \<lparr>index_d = 4, vectors = [[0, 0, 0, 0]]\<rparr>,
        documents = [chunk_hr\<lparr>embedding := Some [0, 0, 0, 0]\<rparr>], dimension = 4\<rparr>,
      \<lparr>index_file = Stored \<lparr>index_d = 4, vectors = [[0, 0, 0, 0]]\<rparr>,
        docs_file = Stored [chunk_hr\<lparr>embedding := Some [0, 0, 0, 0]\<rparr>]\<rparr>)
   \<and> sum_squares (binary_enc (content chunk_hr)) \<noteq> 1"
  by (simp add: add_eval zero_enc_def binary_enc_def fresh_store_def)

text \<open>
  C10, as the code has it: a call of \<open>add_documents\<close> that goes through on a non-empty
  list leaves each chunk that had no embedding with the raw encoder output in its
  \<open>embedding\<close> field and every other chunk as it was; these chunks are appended to the
  document list and persisted. The rows appended to the index and persisted with it are
  not these embeddings but what the cast to single precision and the normalisation make
  of them.
\<close>

theorem add_documents_persists_raw_embeddings:
  assumes "add_documents enc nrm st dk NoFault chunks = (None, chunks', st', dk')"
    and "chunks \<noteq> []"
  shows "chunks' =
           map (\<lambda>c. if embedding_absent c then c\<lparr>embedding := Some (enc (content c))\<rparr> else c)
             chunks
         \<and> documents st' = documents st @ chunks'
         \<and> docs_file dk' = Stored (documents st')
         \<and> vectors (index st') =
             vectors (index st) @ map (\<lambda>c. nrm (embedding_value c)) chunks'
         \<and> index_file dk' = Stored (index st')"
proof -
  from add_documents_cases [OF assms(1)] assms(2)
  have c: "chunks' = map (fill_embedding enc) chunks"
    and s: "st' = st\<lparr>index := index_add (index st)
                        (map (\<lambda>c. nrm (embedding_value c)) chunks'),
                     documents := documents st @ chunks'\<rparr>"
    and d: "(None, dk') = save_index st' dk NoFault"
    by auto
  from c have "chunks' =
      map (\<lambda>c. if embedding_absent c then c\<lparr>embedding := Some (enc (content c))\<rparr> else c)
        chunks"
    by (simp add: fill_embedding_def [abs_def])
  moreover from s have "documents st' = documents st @ chunks'" by simp
  moreover from s have "vectors (index st') =
             vectors (index st) @ map (\<lambda>c. nrm (embedding_value c)) chunks'"
    by (simp add: index_add_def)
  moreover from d have "docs_file dk' = Stored (documents st')"
    and "index_file dk' = Stored (index st')"
    by (simp_all add: save_index_NoFault)
  ultimately show ?thesis by blast
qed

theorem add_documents_persists_raw_embeddings_witness:
  "add_documents binary_enc unit_normalize fresh_store empty_disk NoFault
     [chunk_github, chunk_hr] =
     (None, documents store_two, store_two, disk_two)
   \<and> [chunk_github, chunk_hr] \<noteq> []
   \<and> documents store_two =
       [chunk_github\<lparr>embedding := Some [1, 1, - 1, - 1]\<rparr>,
        chunk_hr\<lparr>embedding := Some [1, 1, 1, 1]\<rparr>]
   \<and> docs_file disk_two = Stored (documents store_two)
   \<and> vectors (index store_two) =
       vectors (index fresh_store) @
       map (\<lambda>c. unit_normalize (embedding_value c)) (documents store_two)
   \<and> vectors (index store_two) =
       [[1 / 2, 1 / 2, - (1 / 2), - (1 / 2)], [1 / 2, 1 / 2, 1 / 2, 1 / 2]]"
proof -
  have ne: "[chunk_github, chunk_hr] \<noteq> []" by simp
  note w = add_documents_persists_raw_embeddings [OF add_both ne]
  have "documents store_two =
       [chunk_github\<lparr>embedding := Some [1, 1, - 1, - 1]\<rparr>,
        chunk_hr\<lparr>embedding := Some [1, 1, 1, 1]\<rparr>]"
    and "vectors (index store_two) =
       [[1 / 2, 1 / 2, - (1 / 2), - (1 / 2)], [1 / 2, 1 / 2, 1 / 2, 1 / 2]]"
    by (simp_all add: store_two_def)
  with w add_both ne show ?thesis by blast
qed

end
